theory Spec2Isabelle
  imports Complex_Main "HOL-Library.Sublist"
begin

section \<open>Python primitives used by the knowledge-base services\<close>

text \<open>
  Python integers are \<^typ>\<open>int\<close>. In the answer service a Python string is a
  \<^typ>\<open>string\<close>, one \<^typ>\<open>char\<close> per code point (code points below 256), and a
  float is a \<^typ>\<open>real\<close>. The texts that the chunker and the search service work
  on (texts to chunk, titles, contents, queries) are lists of Unicode code points,
  since the results depend on the whitespace and the case mapping of all of Unicode;
  identifiers and payload keys are strings. In the cosine similarity a float is a
  value of IEEE arithmetic, with infinities and NaN.
\<close>

definition py_or :: "int option \<Rightarrow> int \<Rightarrow> int" where
  \<comment> \<open>\<open>x or d\<close> for an \<open>Optional[int]\<close>: \<open>None\<close> and \<open>0\<close> are falsy.\<close>
  "py_or x d = (case x of None \<Rightarrow> d | Some v \<Rightarrow> if v = 0 then d else v)"

definition py_index :: "nat \<Rightarrow> int \<Rightarrow> nat" where
  \<comment> \<open>A slice bound on a sequence of length \<open>n\<close>: negative bounds count from the end,
      and every bound is clamped to \<open>0..n\<close>.\<close>
  "py_index n i = (if i < 0 then nat (max 0 (i + int n)) else min (nat i) n)"

definition py_slice :: "'a list \<Rightarrow> int \<Rightarrow> int \<Rightarrow> 'a list" where
  \<comment> \<open>\<open>xs[i:j]\<close>\<close>
  "py_slice xs i j =
     (let a = py_index (length xs) i; b = py_index (length xs) j
      in take (b - a) (drop a xs))"

definition py_rfind :: "'a \<Rightarrow> 'a list \<Rightarrow> int \<Rightarrow> int \<Rightarrow> int" where
  \<comment> \<open>\<open>xs.rfind(c, i, j)\<close> for a single character \<open>c\<close>: the highest position of \<open>c\<close>
      within \<open>xs[i:j]\<close>, or \<open>-1\<close>.\<close>
  "py_rfind c xs i j =
     (let a = py_index (length xs) i; b = py_index (length xs) j
      in case List.find (\<lambda>p. xs ! p = c) (rev [a..<b]) of
           None \<Rightarrow> - 1
         | Some p \<Rightarrow> int p)"

definition py_isspace :: "char \<Rightarrow> bool" where
  \<comment> \<open>The code points below 256 that \<open>str.strip()\<close> removes.\<close>
  "py_isspace c =
     (let n = (of_char c :: nat)
      in (9 \<le> n \<and> n \<le> 13) \<or> (28 \<le> n \<and> n \<le> 32) \<or> n = 133 \<or> n = 160)"

definition py_strip :: "string \<Rightarrow> string" where
  \<comment> \<open>\<open>s.strip()\<close>\<close>
  "py_strip s = rev (dropWhile py_isspace (rev (dropWhile py_isspace s)))"

subsection \<open>Unicode strings\<close>

text \<open>A Python string as the list of its code points.\<close>

type_synonym ustring = "nat list"

definition cps :: "string \<Rightarrow> ustring" where
  \<comment> \<open>the code points of a string literal\<close>
  "cps s = map of_char s"

definition u_isspace :: "nat \<Rightarrow> bool" where
  \<comment> \<open>The code points that \<open>str.strip()\<close> removes: the Unicode whitespace
      U+0009..U+000D, U+001C..U+0020, U+0085, U+00A0, U+1680, U+2000..U+200A, U+2028,
      U+2029, U+202F, U+205F and U+3000.\<close>
  "u_isspace n =
     ((9 \<le> n \<and> n \<le> 13) \<or> (28 \<le> n \<and> n \<le> 32) \<or> n = 133 \<or> n = 160
      \<or> n = 5760 \<or> (8192 \<le> n \<and> n \<le> 8202) \<or> n = 8232 \<or> n = 8233
      \<or> n = 8239 \<or> n = 8287 \<or> n = 12288)"

definition u_strip :: "ustring \<Rightarrow> ustring" where
  \<comment> \<open>\<open>s.strip()\<close>\<close>
  "u_strip s = rev (dropWhile u_isspace (rev (dropWhile u_isspace s)))"

section \<open>Configuration (\<open>app/core/config.py\<close>)\<close>

record settings =
  CHUNK_SIZE :: int
  CHUNK_OVERLAP :: int
  MIN_SEARCH_SCORE :: real

definition default_settings :: settings where
  "default_settings = \<lparr>CHUNK_SIZE = 512, CHUNK_OVERLAP = 50, MIN_SEARCH_SCORE = 0.1\<rparr>"

section \<open>Text chunking (\<open>EmbeddingService.chunk_text\<close>)\<close>

definition chunk_end :: "ustring \<Rightarrow> int \<Rightarrow> int \<Rightarrow> int" where
  \<comment> \<open>The end of the chunk that starts at \<open>start\<close>: the tentative end
      \<open>start + chunk_size\<close>, pulled back to the last space (U+0020) when that space
      lies strictly after \<open>start\<close>.\<close>
  "chunk_end text chunk_size start =
     (let endp = start + chunk_size
      in if endp < int (length text)
         then (let last_space = py_rfind 32 text start endp
               in if last_space > start then last_space else endp)
         else endp)"

definition chunk_append :: "ustring list \<Rightarrow> ustring \<Rightarrow> ustring list" where
  \<comment> \<open>\<open>if chunk: chunks.append(chunk)\<close>\<close>
  "chunk_append chunks chunk = (if chunk \<noteq> [] then chunks @ [chunk] else chunks)"

text \<open>
  The \<open>while\<close> loop of \<open>chunk_text\<close>. The source gives no bound on the number of
  iterations, so the loop is a partial function: \<open>None\<close> means that it never returns.
\<close>

partial_function (option) chunk_loop ::
  "ustring \<Rightarrow> int \<Rightarrow> int \<Rightarrow> int \<Rightarrow> ustring list \<Rightarrow> ustring list option" where
  "chunk_loop text chunk_size overlap start chunks =
     (if start < int (length text)
      then (let endp = chunk_end text chunk_size start;
                chunks' = chunk_append chunks (u_strip (py_slice text start endp));
                start' = endp - overlap
            in if start' \<ge> int (length text) then Some chunks'
               else chunk_loop text chunk_size overlap start' chunks')
      else Some chunks)"

definition chunk_text ::
  "settings \<Rightarrow> ustring \<Rightarrow> int option \<Rightarrow> int option \<Rightarrow> ustring list option" where
  "chunk_text st text chunk_size overlap =
     (let cs = py_or chunk_size (CHUNK_SIZE st);
          ov = py_or overlap (CHUNK_OVERLAP st)
      in if int (length text) \<le> cs then Some [text]
         else chunk_loop text cs ov 0 [])"

section \<open>More string primitives\<close>

definition py_lower_char :: "char \<Rightarrow> char" where
  \<comment> \<open>\<open>str.lower()\<close> on one code point below 256: the ASCII capitals and the Latin-1
      capitals (all of \<open>0xC0..0xDE\<close> but the multiplication sign) move up by 32.\<close>
  "py_lower_char c =
     (let n = (of_char c :: nat)
      in if (65 \<le> n \<and> n \<le> 90) \<or> (192 \<le> n \<and> n \<le> 222 \<and> n \<noteq> 215)
         then char_of (n + 32) else c)"

definition py_lower :: "string \<Rightarrow> string" where
  "py_lower s = map py_lower_char s"

fun py_find :: "'a list \<Rightarrow> 'a list \<Rightarrow> int" where
  \<comment> \<open>\<open>s.find(sub)\<close>: the lowest position at which \<open>sub\<close> starts in \<open>s\<close>, or \<open>-1\<close>.\<close>
  "py_find sub [] = (if sub = [] then 0 else - 1)"
| "py_find sub (x # xs) =
     (if prefix sub (x # xs) then 0
      else (let r = py_find sub xs in if r < 0 then - 1 else r + 1))"

definition py_in :: "string \<Rightarrow> string \<Rightarrow> bool" where
  \<comment> \<open>\<open>sub in s\<close> for strings\<close>
  "py_in sub s = sublist sub s"

fun py_join :: "string \<Rightarrow> string list \<Rightarrow> string" where
  \<comment> \<open>\<open>sep.join(parts)\<close>\<close>
  "py_join sep [] = []"
| "py_join sep [p] = p"
| "py_join sep (p # q # ps) = p @ sep @ py_join sep (q # ps)"

definition digit_char :: "nat \<Rightarrow> char" where
  "digit_char d = char_of (48 + d)"

fun py_str_nat :: "nat \<Rightarrow> string" where
  \<comment> \<open>\<open>str(n)\<close> for a non-negative integer\<close>
  "py_str_nat n =
     (if n < 10 then [digit_char n] else py_str_nat (n div 10) @ [digit_char (n mod 10)])"

definition nl :: string where
  "nl = [CHR 0x0A]"

section \<open>Errors\<close>

datatype py_error =
    RuntimeError      \<comment> \<open>the embedding model is not initialised\<close>
  | ValueError        \<comment> \<open>numpy: shapes not aligned\<close>
  | KeyError          \<comment> \<open>a payload key is missing\<close>
  | TypeError         \<comment> \<open>a payload value is not of the type the code uses it at\<close>
  | ProviderError     \<comment> \<open>any exception raised by an external provider call\<close>

section \<open>Floating-point numbers\<close>

text \<open>
  The result of \<open>compute_similarity\<close> depends on what floating-point arithmetic does
  at zero, on overflow and on underflow, so there a float is not read as a real
  number. A float is a finite value, one of the two infinities, or NaN; the two
  zeros, which compare equal, are not told apart. An operation on finite values
  rounds the exact result: the rounding is the parameter \<open>rnd\<close> of the operations,
  which stands for the rounding of IEEE doubles (an infinity for a result that is too
  large, zero for one that is too small). The operations on infinities and NaN and
  the division by zero follow IEEE 754, as numpy does, which raises nothing for them.
\<close>

datatype pyfloat = FNum real | PosInf | NegInf | NaN

type_synonym rounding = "real \<Rightarrow> pyfloat"

definition exact :: rounding where
  \<comment> \<open>the rounding that leaves every result as it is\<close>
  "exact x = FNum x"

fun fadd :: "rounding \<Rightarrow> pyfloat \<Rightarrow> pyfloat \<Rightarrow> pyfloat" where
  "fadd rnd (FNum x) (FNum y) = rnd (x + y)"
| "fadd rnd (FNum x) PosInf = PosInf"
| "fadd rnd (FNum x) NegInf = NegInf"
| "fadd rnd PosInf (FNum y) = PosInf"
| "fadd rnd NegInf (FNum y) = NegInf"
| "fadd rnd PosInf PosInf = PosInf"
| "fadd rnd NegInf NegInf = NegInf"
| "fadd rnd PosInf NegInf = NaN"
| "fadd rnd NegInf PosInf = NaN"
| "fadd rnd NaN y = NaN"
| "fadd rnd x NaN = NaN"

fun fmul :: "rounding \<Rightarrow> pyfloat \<Rightarrow> pyfloat \<Rightarrow> pyfloat" where
  "fmul rnd (FNum x) (FNum y) = rnd (x * y)"
| "fmul rnd (FNum x) PosInf = (if x = 0 then NaN else if 0 < x then PosInf else NegInf)"
| "fmul rnd (FNum x) NegInf = (if x = 0 then NaN else if 0 < x then NegInf else PosInf)"
| "fmul rnd PosInf (FNum y) = (if y = 0 then NaN else if 0 < y then PosInf else NegInf)"
| "fmul rnd NegInf (FNum y) = (if y = 0 then NaN else if 0 < y then NegInf else PosInf)"
| "fmul rnd PosInf PosInf = PosInf"
| "fmul rnd NegInf NegInf = PosInf"
| "fmul rnd PosInf NegInf = NegInf"
| "fmul rnd NegInf PosInf = NegInf"
| "fmul rnd NaN y = NaN"
| "fmul rnd x NaN = NaN"

text \<open>
  Division. A finite value divided by zero is NaN for \<open>0 / 0\<close> and an infinity
  otherwise; the zero divisor is taken as \<open>+0.0\<close>, which is what a product of norms
  can be.
\<close>

fun fdiv :: "rounding \<Rightarrow> pyfloat \<Rightarrow> pyfloat \<Rightarrow> pyfloat" where
  "fdiv rnd (FNum x) (FNum y) =
     (if y = 0 then (if x = 0 then NaN else if 0 < x then PosInf else NegInf)
      else rnd (x / y))"
| "fdiv rnd (FNum x) PosInf = FNum 0"
| "fdiv rnd (FNum x) NegInf = FNum 0"
| "fdiv rnd PosInf (FNum y) = (if 0 \<le> y then PosInf else NegInf)"
| "fdiv rnd NegInf (FNum y) = (if 0 \<le> y then NegInf else PosInf)"
| "fdiv rnd PosInf PosInf = NaN"
| "fdiv rnd NegInf NegInf = NaN"
| "fdiv rnd PosInf NegInf = NaN"
| "fdiv rnd NegInf PosInf = NaN"
| "fdiv rnd NaN y = NaN"
| "fdiv rnd x NaN = NaN"

fun fsqrt :: "rounding \<Rightarrow> pyfloat \<Rightarrow> pyfloat" where
  "fsqrt rnd (FNum x) = (if x < 0 then NaN else rnd (sqrt x))"
| "fsqrt rnd PosInf = PosInf"
| "fsqrt rnd NegInf = NaN"
| "fsqrt rnd NaN = NaN"

definition fsum :: "rounding \<Rightarrow> pyfloat list \<Rightarrow> pyfloat" where
  \<comment> \<open>the sum of a list of floats, added from left to right, starting from \<open>0.0\<close>\<close>
  "fsum rnd xs = foldl (fadd rnd) (FNum 0) xs"

section \<open>Cosine similarity (\<open>EmbeddingService.compute_similarity\<close>)\<close>

definition np_dot :: "rounding \<Rightarrow> pyfloat list \<Rightarrow> pyfloat list \<Rightarrow> py_error + pyfloat" where
  \<comment> \<open>\<open>np.dot\<close> on two one-dimensional arrays: the lengths must agree.\<close>
  "np_dot rnd v w =
     (if length v \<noteq> length w then Inl ValueError
      else Inr (fsum rnd (map (\<lambda>(x, y). fmul rnd x y) (zip v w))))"

definition np_linalg_norm :: "rounding \<Rightarrow> pyfloat list \<Rightarrow> pyfloat" where
  \<comment> \<open>\<open>np.linalg.norm\<close> on a one-dimensional array: the square root of the dot
      product of the array with itself\<close>
  "np_linalg_norm rnd v = fsqrt rnd (fsum rnd (map (\<lambda>x. fmul rnd x x) v))"

definition compute_similarity ::
  "rounding \<Rightarrow> pyfloat list \<Rightarrow> pyfloat list \<Rightarrow> py_error + pyfloat" where
  "compute_similarity rnd embedding1 embedding2 =
     (case np_dot rnd embedding1 embedding2 of
        Inl e \<Rightarrow> Inl e
      | Inr dot_product \<Rightarrow>
          (let norm1 = np_linalg_norm rnd embedding1;
               norm2 = np_linalg_norm rnd embedding2
           in if norm1 = FNum 0 \<or> norm2 = FNum 0 then Inr (FNum 0)
              else Inr (fdiv rnd dot_product (fmul rnd norm1 norm2))))"

text \<open>The specification's wording of cosine similarity, for comparison.\<close>

definition spec_dot :: "rounding \<Rightarrow> pyfloat list \<Rightarrow> pyfloat list \<Rightarrow> pyfloat" where
  \<comment> \<open>the dot product: the sum of the products \<open>a\<^sub>i * b\<^sub>i\<close>\<close>
  "spec_dot rnd a b = fsum rnd (map (\<lambda>i. fmul rnd (a ! i) (b ! i)) [0..<length a])"

definition spec_norm :: "rounding \<Rightarrow> pyfloat list \<Rightarrow> pyfloat" where
  \<comment> \<open>the Euclidean norm: the square root of the sum of the squares \<open>a\<^sub>i * a\<^sub>i\<close>\<close>
  "spec_norm rnd a = fsqrt rnd (fsum rnd (map (\<lambda>i. fmul rnd (a ! i) (a ! i)) [0..<length a]))"

definition spec_cosine :: "rounding \<Rightarrow> pyfloat list \<Rightarrow> pyfloat list \<Rightarrow> pyfloat" where
  "spec_cosine rnd a b =
     (if spec_norm rnd a = FNum 0 \<or> spec_norm rnd b = FNum 0 then FNum 0
      else fdiv rnd (spec_dot rnd a b) (fmul rnd (spec_norm rnd a) (spec_norm rnd b)))"


section \<open>Answer confidence and answer construction (\<open>AIService\<close>)\<close>

text \<open>
  Modelled from the spec: \<open>app.models.KBSearchResult\<close> is not among the sources. Of its
  fields the modelled code reads only the title, the content and the relevance score.
\<close>

record kb_search_result =
  title :: string
  content :: string
  score :: real

text \<open>Modelled from the spec: \<open>app.models.AnswerResponse\<close>, with the fields the
  constructor calls in \<open>ai_service.py\<close> set.\<close>

record answer_response =
  question :: string
  answer :: string
  confidence :: real
  sources :: "kb_search_result list"
  has_answer :: bool
  suggestions :: "string list"
  reasoning :: string

definition uncertainty_phrases :: "string list" where
  "uncertainty_phrases = [''i don't know'', ''not sure'', ''unclear'', ''might be'']"

fun uncertainty_loop :: "string list \<Rightarrow> string \<Rightarrow> real \<Rightarrow> real" where
  \<comment> \<open>\<open>for phrase in uncertainty_phrases: if phrase in response_lower: confidence -= 0.2; break\<close>\<close>
  "uncertainty_loop [] response_lower c = c"
| "uncertainty_loop (phrase # phrases) response_lower c =
     (if py_in phrase response_lower then c - 0.2
      else uncertainty_loop phrases response_lower c)"

definition calculate_confidence :: "string \<Rightarrow> kb_search_result list \<Rightarrow> real" where
  "calculate_confidence response srcs =
     (let c0 = 0.5;
          c1 = (if length response > 50 then c0 + 0.1 else c0);
          c2 = (if length response > 100 then c1 + 0.1 else c1);
          c3 = (if srcs \<noteq> []
                then (let avg_score = sum_list (map score srcs) / real (length srcs)
                      in c2 + avg_score * 0.3)
                else c2);
          c4 = uncertainty_loop uncertainty_phrases (py_lower response) c3
      in max 0 (min 1 c4))"

definition parse_answer_response ::
  "string \<Rightarrow> string \<Rightarrow> kb_search_result list \<Rightarrow> answer_response" where
  "parse_answer_response ai_response q srcs =
     (let conf = calculate_confidence ai_response srcs;
          has = (conf > 0.3 \<and> length (py_strip ai_response) > 10);
          sugg = (if \<not> has \<and> srcs \<noteq> [] then map title (take 3 srcs) else [])
      in \<lparr>question = q,
          answer = py_strip ai_response,
          confidence = conf,
          sources = srcs,
          has_answer = has,
          suggestions = sugg,
          reasoning = ''Based on '' @ py_str_nat (length srcs) @ '' knowledge base articles''\<rparr>)"

fun context_entries :: "nat \<Rightarrow> kb_search_result list \<Rightarrow> string list" where
  \<comment> \<open>the numbered article entries of \<open>_build_context\<close>, counted from \<open>i\<close>\<close>
  "context_entries i [] = []"
| "context_entries i (article # articles) =
     (py_str_nat i @ ''. '' @ title article @ nl @ py_slice (content article) 0 500
        @ ''...'' @ nl)
     # context_entries (Suc i) articles"

definition build_context :: "kb_search_result list \<Rightarrow> string option \<Rightarrow> string" where
  "build_context articles additional_context =
     (let parts0 = (case additional_context of
                      None \<Rightarrow> []
                    | Some ac \<Rightarrow>
                        if ac \<noteq> [] then [''Additional Context:'' @ nl @ ac @ nl] else []);
          parts1 = (if articles \<noteq> []
                    then parts0 @ [''Relevant Knowledge Base Articles:'' @ nl]
                           @ context_entries 1 (take 3 articles)
                    else parts0)
      in py_join nl parts1)"

definition create_answer_prompt :: "string \<Rightarrow> string \<Rightarrow> string" where
  "create_answer_prompt q ctx =
     ''You are a helpful assistant for a customer support knowledge base. '' @ nl
     @ ''Use the provided context to answer the user's question accurately and helpfully.'' @ nl
     @ nl @ ctx @ nl @ nl
     @ ''Question: '' @ q @ nl @ nl
     @ ''Instructions:'' @ nl
     @ ''- Provide a clear, helpful answer based on the context'' @ nl
     @ ''- If the context doesn't contain enough information, say so'' @ nl
     @ ''- Be concise but complete'' @ nl
     @ ''- Use a friendly, professional tone'' @ nl
     @ ''- If relevant, reference specific articles or steps'' @ nl
     @ nl @ ''Answer:''"

definition fallback_answer :: "string \<Rightarrow> kb_search_result list \<Rightarrow> answer_response" where
  \<comment> \<open>the \<open>except\<close> branch of \<open>answer_question\<close>\<close>
  "fallback_answer q context_articles =
     \<lparr>question = q,
      answer = ''I'm sorry, I couldn't process your question at the moment. Please try again later.'',
      confidence = 0,
      sources = context_articles,
      has_answer = False,
      suggestions = [],
      reasoning = ''AI service error''\<rparr>"

text \<open>
  \<open>answer_question\<close>. The text-generation provider is the parameter
  \<open>generate_response\<close>: it maps the prompt to the generated text, or raises.
\<close>

definition answer_question ::
  "(string \<Rightarrow> py_error + string) \<Rightarrow> string \<Rightarrow> kb_search_result list \<Rightarrow> string option
     \<Rightarrow> answer_response" where
  "answer_question generate_response q context_articles additional_context =
     (let ctx = build_context context_articles additional_context;
          prompt = create_answer_prompt q ctx
      in case generate_response prompt of
           Inl e \<Rightarrow> fallback_answer q context_articles
         | Inr ai_response \<Rightarrow> parse_answer_response ai_response q context_articles)"

definition failing_provider :: "string \<Rightarrow> py_error + string" where
  \<comment> \<open>a text-generation provider that is down\<close>
  "failing_provider prompt = Inl ProviderError"

text \<open>The specification's wording of the confidence score, for comparison.\<close>

definition has_uncertainty :: "string \<Rightarrow> bool" where
  "has_uncertainty response =
     (sublist ''i don't know'' (py_lower response)
      \<or> sublist ''not sure'' (py_lower response)
      \<or> sublist ''unclear'' (py_lower response)
      \<or> sublist ''might be'' (py_lower response))"

definition mean_score :: "kb_search_result list \<Rightarrow> real" where
  "mean_score srcs = (\<Sum>s\<leftarrow>srcs. score s) / real (length srcs)"

definition clamp01 :: "real \<Rightarrow> real" where
  "clamp01 x = (if x < 0 then 0 else if x > 1 then 1 else x)"

definition spec_confidence :: "string \<Rightarrow> kb_search_result list \<Rightarrow> real" where
  "spec_confidence response srcs =
     clamp01 (0.5
              + (if length response > 50 then 0.1 else 0)
              + (if length response > 100 then 0.1 else 0)
              + (if srcs \<noteq> [] then mean_score srcs * 0.3 else 0)
              - (if has_uncertainty response then 0.2 else 0))"

section \<open>Search service (\<open>SearchService\<close>)\<close>

subsection \<open>Snippets\<close>

text \<open>
  \<open>_generate_snippet\<close> finds the query in the lowercased content and cuts the window
  out of the original content, so the length of a lowercased string matters.
  \<open>str.lower()\<close> is the parameter \<open>lower\<close> of the model: the Unicode case mapping is a
  table of the Python runtime.
\<close>

definition ellipsis :: ustring where
  \<comment> \<open>\<open>"..."\<close>\<close>
  "ellipsis = [46, 46, 46]"

definition truncate_content :: "ustring \<Rightarrow> int \<Rightarrow> ustring" where
  \<comment> \<open>\<open>content[:max_length] + "..." if len(content) > max_length else content\<close>\<close>
  "truncate_content content0 max_length =
     (if int (length content0) > max_length
      then py_slice content0 0 max_length @ ellipsis else content0)"

definition generate_snippet ::
  "(ustring \<Rightarrow> ustring) \<Rightarrow> ustring \<Rightarrow> ustring \<Rightarrow> int \<Rightarrow> ustring" where
  "generate_snippet lower content0 query0 max_length =
     (if content0 = [] \<or> query0 = [] then truncate_content content0 max_length
      else (let lower_content = lower content0;
                lower_query = lower query0;
                pos = py_find lower_query lower_content
            in if pos = - 1 then truncate_content content0 max_length
               else (let start = max 0 (pos - max_length div 4);
                         endp = min (int (length content0)) (start + max_length);
                         snippet0 = py_slice content0 start endp;
                         snippet1 = (if start > 0 then ellipsis @ snippet0 else snippet0);
                         snippet2 = (if endp < int (length content0)
                                     then snippet1 @ ellipsis else snippet1)
                     in snippet2)))"

text \<open>
  The case mapping on the code points below 256 and on U+0130, the capital I with a
  dot above, whose lowercase form has the two code points U+0069 and U+0307. The
  other code points are left as they are, which \<open>str.lower()\<close> does not do: the
  definition serves on strings of the code points named.
\<close>

definition lower_code_point :: "nat \<Rightarrow> ustring" where
  "lower_code_point n =
     (if n = 304 then [105, 775]
      else if (65 \<le> n \<and> n \<le> 90) \<or> (192 \<le> n \<and> n \<le> 222 \<and> n \<noteq> 215) then [n + 32]
      else [n])"

definition latin_lower :: "ustring \<Rightarrow> ustring" where
  "latin_lower s = concat (map lower_code_point s)"

subsection \<open>Filters\<close>

text \<open>
  The filter model of the vector index client: a field condition matches one value or
  any of a list of values; a filter has the three optional clause lists \<open>must\<close>
  (conjunction), \<open>should\<close> (disjunction) and \<open>must_not\<close> (negation).
\<close>

datatype match_cond =
    MatchValueStr string
  | MatchValueBool bool
  | MatchAny "string list"

record field_condition =
  key :: string
  match :: match_cond

record index_filter =
  must :: "field_condition list option"
  should :: "field_condition list option"
  must_not :: "field_condition list option"

text \<open>
  Modelled from the spec: \<open>app.models.KBSearchRequest\<close> and
  \<open>app.models.SimilarityRequest\<close> are not among the sources. The fields are those the
  search service reads; the visibility flag is a boolean, status and tags are optional
  lists of strings.
\<close>

record kb_search_request =
  query :: ustring
  tenant_id :: string
  project_id :: string
  limit :: int
  offset :: int
  public_only :: bool
  status :: "string list option"
  tags :: "string list option"

record similarity_request =
  sim_text :: ustring
  sim_tenant_id :: string
  sim_project_id :: string
  sim_limit :: int
  sim_threshold :: real

definition truthy_list :: "'a list option \<Rightarrow> bool" where
  \<comment> \<open>the truth value of an optional list: \<open>None\<close> and \<open>[]\<close> are falsy\<close>
  "truthy_list x = (case x of None \<Rightarrow> False | Some xs \<Rightarrow> xs \<noteq> [])"

definition build_filter_conditions ::
  "string \<Rightarrow> string \<Rightarrow> kb_search_request option \<Rightarrow> index_filter" where
  "build_filter_conditions tenant project request =
     (let conditions0 =
            [\<lparr>key = ''tenant_id'', match = MatchValueStr tenant\<rparr>,
             \<lparr>key = ''project_id'', match = MatchValueStr project\<rparr>];
          conditions =
            (case request of
               None \<Rightarrow> conditions0
             | Some r \<Rightarrow>
                 (let c1 = (if public_only r
                            then conditions0 @ [\<lparr>key = ''is_public'', match = MatchValueBool True\<rparr>]
                            else conditions0);
                      c2 = (if truthy_list (status r)
                            then c1 @ [\<lparr>key = ''status'', match = MatchAny (the (status r))\<rparr>]
                            else c1);
                      c3 = (if truthy_list (tags r)
                            then c2 @ [\<lparr>key = ''tags'', match = MatchAny (the (tags r))\<rparr>]
                            else c2)
                  in c3))
      in \<lparr>must = Some conditions, should = None, must_not = None\<rparr>)"

subsection \<open>Calls to the vector index\<close>

text \<open>
  A payload is a dictionary from keys to JSON values. Scores and embedding vectors
  are only handed on by the search service; they are read as real numbers.
\<close>

datatype payload_value =
    VStr ustring
  | VInt int
  | VReal real
  | VBool bool
  | VList "payload_value list"
  | VNull

type_synonym payload = "string \<rightharpoonup> payload_value"

record point_struct =
  point_id :: string
  vector :: "real list"
  point_payload :: payload

record scored_point =
  hit_id :: string
  hit_score :: real
  hit_payload :: payload

record search_call =
  collection_name :: string
  query_vector :: "real list"
  query_filter :: index_filter
  call_limit :: int
  call_offset :: "int option"
  score_threshold :: "real option"

text \<open>
  Modelled from the spec: \<open>app.models.SimilarityResult\<close> and, with all the fields
  that \<open>search_articles\<close> sets, \<open>app.models.KBSearchResult\<close> are not among the
  sources. The records hold the constructor arguments as the code passes them; the
  validation that the model classes may add is not modelled.
\<close>

record similarity_result =
  res_id :: string
  res_title :: payload_value
  res_content :: payload_value
  res_score :: real
  res_type :: string

record retrieved_article =
  art_id :: string
  art_type :: string
  art_title :: payload_value
  art_content :: payload_value
  art_summary :: payload_value
  art_score :: real
  art_rank :: int
  art_snippet :: ustring
  art_tags :: payload_value
  art_keywords :: payload_value
  art_category_name :: payload_value
  art_author_name :: payload_value
  art_view_count :: payload_value
  art_helpful_count :: payload_value
  art_created_at :: payload_value
  art_updated_at :: payload_value
  art_published_at :: payload_value

definition kb_collection :: string where
  "kb_collection = ''kb_articles''"

definition similar_call :: "similarity_request \<Rightarrow> real list \<Rightarrow> search_call" where
  \<comment> \<open>the arguments of \<open>qdrant_client.search\<close> in \<open>search_similar\<close>\<close>
  "similar_call request query_embedding =
     \<lparr>collection_name = kb_collection,
      query_vector = query_embedding,
      query_filter = build_filter_conditions (sim_tenant_id request) (sim_project_id request) None,
      call_limit = sim_limit request,
      call_offset = None,
      score_threshold = Some (sim_threshold request)\<rparr>"

definition articles_call :: "settings \<Rightarrow> kb_search_request \<Rightarrow> real list \<Rightarrow> search_call" where
  \<comment> \<open>the arguments of \<open>qdrant_client.search\<close> in \<open>search_articles\<close>\<close>
  "articles_call st request query_embedding =
     \<lparr>collection_name = kb_collection,
      query_vector = query_embedding,
      query_filter = build_filter_conditions (tenant_id request) (project_id request) (Some request),
      call_limit = limit request,
      call_offset = Some (offset request),
      score_threshold = Some (MIN_SEARCH_SCORE st)\<rparr>"

definition payload_get :: "payload \<Rightarrow> string \<Rightarrow> py_error + payload_value" where
  \<comment> \<open>\<open>payload[k]\<close>\<close>
  "payload_get m k = (case m k of None \<Rightarrow> Inl KeyError | Some v \<Rightarrow> Inr v)"

definition payload_get_default :: "payload \<Rightarrow> string \<Rightarrow> payload_value \<Rightarrow> payload_value" where
  \<comment> \<open>\<open>payload.get(k, d)\<close>; \<open>payload.get(k)\<close> is \<open>payload.get(k, None)\<close>\<close>
  "payload_get_default m k d = (case m k of None \<Rightarrow> d | Some v \<Rightarrow> v)"

fun similar_results :: "scored_point list \<Rightarrow> py_error + similarity_result list" where
  "similar_results [] = Inr []"
| "similar_results (point # points) =
     (case payload_get (hit_payload point) ''title'' of
        Inl e \<Rightarrow> Inl e
      | Inr t \<Rightarrow>
          (case payload_get (hit_payload point) ''content'' of
             Inl e \<Rightarrow> Inl e
           | Inr c \<Rightarrow>
               (case similar_results points of
                  Inl e \<Rightarrow> Inl e
                | Inr rs \<Rightarrow>
                    Inr (\<lparr>res_id = hit_id point, res_title = t, res_content = c,
                          res_score = hit_score point, res_type = ''article''\<rparr> # rs))))"

text \<open>
  \<open>search_similar\<close>. The embedding provider and the vector index are the parameters
  \<open>generate_embedding\<close> and \<open>index_search\<close>; an exception of either is re-raised.
\<close>

definition search_similar ::
  "(ustring \<Rightarrow> py_error + real list) \<Rightarrow> (search_call \<Rightarrow> py_error + scored_point list)
     \<Rightarrow> similarity_request \<Rightarrow> py_error + similarity_result list" where
  "search_similar generate_embedding index_search request =
     (case generate_embedding (sim_text request) of
        Inl e \<Rightarrow> Inl e
      | Inr query_embedding \<Rightarrow>
          (case index_search (similar_call request query_embedding) of
             Inl e \<Rightarrow> Inl e
           | Inr search_result \<Rightarrow> similar_results search_result))"

text \<open>
  \<open>search_articles\<close>. The snippet is cut from the stored content, which the snippet
  code uses as a string: a content that is no string makes the conversion fail (on
  \<open>len\<close> or \<open>lower\<close>, or, for an empty list, which the snippet code hands back, as a
  snippet that is no string).
\<close>

definition snippet_of ::
  "(ustring \<Rightarrow> ustring) \<Rightarrow> payload_value \<Rightarrow> ustring \<Rightarrow> py_error + ustring" where
  \<comment> \<open>\<open>self._generate_snippet(point.payload["content"], request.query)\<close>\<close>
  "snippet_of lower c q =
     (case c of VStr s \<Rightarrow> Inr (generate_snippet lower s q 200) | _ \<Rightarrow> Inl TypeError)"

fun article_results ::
  "(ustring \<Rightarrow> ustring) \<Rightarrow> kb_search_request \<Rightarrow> int \<Rightarrow> scored_point list
     \<Rightarrow> py_error + retrieved_article list" where
  \<comment> \<open>the loop \<open>for i, point in enumerate(search_result)\<close>, from index \<open>i\<close> on\<close>
  "article_results lower request i [] = Inr []"
| "article_results lower request i (point # points) =
     (case payload_get (hit_payload point) ''content'' of
        Inl e \<Rightarrow> Inl e
      | Inr c \<Rightarrow>
     (case snippet_of lower c (query request) of
        Inl e \<Rightarrow> Inl e
      | Inr snippet \<Rightarrow>
     (case payload_get (hit_payload point) ''title'' of
        Inl e \<Rightarrow> Inl e
      | Inr t \<Rightarrow>
     (case payload_get (hit_payload point) ''created_at'' of
        Inl e \<Rightarrow> Inl e
      | Inr created \<Rightarrow>
     (case payload_get (hit_payload point) ''updated_at'' of
        Inl e \<Rightarrow> Inl e
      | Inr updated \<Rightarrow>
     (case article_results lower request (i + 1) points of
        Inl e \<Rightarrow> Inl e
      | Inr rs \<Rightarrow>
          Inr (\<lparr>art_id = hit_id point,
                art_type = ''article'',
                art_title = t,
                art_content = c,
                art_summary = payload_get_default (hit_payload point) ''summary'' VNull,
                art_score = hit_score point,
                art_rank = offset request + i + 1,
                art_snippet = snippet,
                art_tags = payload_get_default (hit_payload point) ''tags'' (VList []),
                art_keywords = payload_get_default (hit_payload point) ''keywords'' (VList []),
                art_category_name =
                  payload_get_default (hit_payload point) ''category_name'' VNull,
                art_author_name = payload_get_default (hit_payload point) ''author_name'' VNull,
                art_view_count = payload_get_default (hit_payload point) ''view_count'' (VInt 0),
                art_helpful_count =
                  payload_get_default (hit_payload point) ''helpful_count'' (VInt 0),
                art_created_at = created,
                art_updated_at = updated,
                art_published_at =
                  payload_get_default (hit_payload point) ''published_at'' VNull\<rparr> # rs)))))))"

definition search_articles ::
  "settings \<Rightarrow> (ustring \<Rightarrow> ustring) \<Rightarrow> (ustring \<Rightarrow> py_error + real list)
     \<Rightarrow> (search_call \<Rightarrow> py_error + scored_point list)
     \<Rightarrow> kb_search_request \<Rightarrow> py_error + retrieved_article list" where
  "search_articles st lower generate_embedding index_search request =
     (case generate_embedding (query request) of
        Inl e \<Rightarrow> Inl e
      | Inr query_embedding \<Rightarrow>
          (case index_search (articles_call st request query_embedding) of
             Inl e \<Rightarrow> Inl e
           | Inr search_result \<Rightarrow> article_results lower request 0 search_result))"

subsection \<open>Indexing\<close>

definition article_text :: "ustring \<Rightarrow> ustring \<Rightarrow> ustring" where
  \<comment> \<open>the f-string of the title, two line feeds and the content\<close>
  "article_text title0 content0 = title0 @ [10, 10] @ content0"

definition article_payload :: "ustring \<Rightarrow> ustring \<Rightarrow> payload \<Rightarrow> payload" where
  \<comment> \<open>\<open>{"title": title, "content": content, **metadata}\<close>: later keys win\<close>
  "article_payload title0 content0 metadata =
     [''title'' \<mapsto> VStr title0, ''content'' \<mapsto> VStr content0] ++ metadata"

definition article_point ::
  "string \<Rightarrow> real list \<Rightarrow> ustring \<Rightarrow> ustring \<Rightarrow> payload \<Rightarrow> point_struct" where
  "article_point article_id embedding title0 content0 metadata =
     \<lparr>point_id = article_id, vector = embedding,
      point_payload = article_payload title0 content0 metadata\<rparr>"

text \<open>
  \<open>index_article\<close>. The vector index's \<open>upsert\<close> is the parameter \<open>index_upsert\<close>,
  which receives the collection name and the list of points.
\<close>

definition index_article ::
  "(ustring \<Rightarrow> py_error + real list) \<Rightarrow> (string \<Rightarrow> point_struct list \<Rightarrow> py_error + unit)
     \<Rightarrow> string \<Rightarrow> ustring \<Rightarrow> ustring \<Rightarrow> payload \<Rightarrow> py_error + unit" where
  "index_article generate_embedding index_upsert article_id title0 content0 metadata =
     (case generate_embedding (article_text title0 content0) of
        Inl e \<Rightarrow> Inl e
      | Inr embedding \<Rightarrow>
          index_upsert kb_collection
            [article_point article_id embedding title0 content0 metadata])"


section \<open>Auxiliary definitions for the statements\<close>

definition pre_penalty :: "nat \<Rightarrow> kb_search_result list \<Rightarrow> real" where
  \<comment> \<open>the confidence of a response of length \<open>n\<close> before the uncertainty penalty and
      the clamp\<close>
  "pre_penalty n srcs =
     0.5 + (if n > 50 then 0.1 else 0) + (if n > 100 then 0.1 else 0)
     + (if srcs \<noteq> [] then mean_score srcs * 0.3 else 0)"

definition fixed_provider :: "string \<Rightarrow> string \<Rightarrow> py_error + string" where
  \<comment> \<open>a text-generation provider that answers every prompt with \<open>reply\<close>\<close>
  "fixed_provider reply prompt = Inr reply"


definition match_pos :: "(ustring \<Rightarrow> ustring) \<Rightarrow> ustring \<Rightarrow> ustring \<Rightarrow> int" where
  \<comment> \<open>where the lowercased query first occurs in the lowercased content, or \<open>-1\<close>\<close>
  "match_pos lower content0 query0 = py_find (lower query0) (lower content0)"

definition match_fits :: "(ustring \<Rightarrow> ustring) \<Rightarrow> ustring \<Rightarrow> ustring \<Rightarrow> int \<Rightarrow> bool" where
  \<comment> \<open>the first match of the lowercased query ends inside the snippet window\<close>
  "match_fits lower content0 query0 max_length =
     (match_pos lower content0 query0 + int (length (lower query0))
        \<le> max 0 (match_pos lower content0 query0 - max_length div 4) + max_length)"

definition matched_text :: "(ustring \<Rightarrow> ustring) \<Rightarrow> ustring \<Rightarrow> ustring \<Rightarrow> ustring" where
  \<comment> \<open>the characters of the content at the positions of the first match\<close>
  "matched_text lower content0 query0 =
     py_slice content0 (match_pos lower content0 query0)
       (match_pos lower content0 query0 + int (length (lower query0)))"

definition matched_lower :: "(ustring \<Rightarrow> ustring) \<Rightarrow> ustring \<Rightarrow> ustring \<Rightarrow> ustring" where
  \<comment> \<open>the characters of the lowercased content at the same positions\<close>
  "matched_lower lower content0 query0 =
     py_slice (lower content0) (match_pos lower content0 query0)
       (match_pos lower content0 query0 + int (length (lower query0)))"




section \<open>Filters and index calls: the claims\<close>

text \<open>
  C7. For every tenant, project and optional request settings, the filter built by
  \<open>_build_filter_conditions\<close> holds the exact-match condition on the tenant and the
  exact-match condition on the project, and every condition of the filter, the
  optional visibility, status and tag conditions included, sits in the \<open>must\<close>
  clause: the filter has no \<open>should\<close> and no \<open>must_not\<close> clause.
\<close>

theorem filter_conjunction_only:
  "\<exists>optional.
     must (build_filter_conditions tenant project request) =
       Some (\<lparr>key = ''tenant_id'', match = MatchValueStr tenant\<rparr>
             # \<lparr>key = ''project_id'', match = MatchValueStr project\<rparr>
             # optional)
     \<and> set optional \<subseteq>
         {\<lparr>key = ''is_public'', match = MatchValueBool True\<rparr>}
         \<union> {\<lparr>key = ''status'', match = MatchAny vs\<rparr> | vs. vs \<noteq> []}
         \<union> {\<lparr>key = ''tags'', match = MatchAny vs\<rparr> | vs. vs \<noteq> []}
     \<and> should (build_filter_conditions tenant project request) = None
     \<and> must_not (build_filter_conditions tenant project request) = None"
proof (cases request)
  case None
  then show ?thesis
    by (simp add: build_filter_conditions_def)
next
  case (Some r)
  then show ?thesis
    by (cases "status r"; cases "tags r")
       (auto simp: build_filter_conditions_def Let_def truthy_list_def)
qed

text \<open>
  C9. What \<open>search_similar\<close> does is one search of the vector index whose filter has
  exactly two conditions, the exact match on the tenant and the exact match on the
  project, in the \<open>must\<close> clause, and nothing else: no visibility, status or tag
  condition. (When the embedding provider fails, the index is not searched at all.)
  The search of \<open>search_articles\<close> has, after the same two conditions, the
  visibility condition when \<open>public_only\<close> is set, the status condition for a
  non-empty status list and the tag condition for a non-empty tag list.
\<close>

theorem similar_filter_two_conditions:
  "search_similar generate_embedding index_search request =
     (case generate_embedding (sim_text request) of
        Inl e \<Rightarrow> Inl e
      | Inr v \<Rightarrow>
          (case index_search
                  \<lparr>collection_name = ''kb_articles'',
                   query_vector = v,
                   query_filter =
                     \<lparr>must = Some [\<lparr>key = ''tenant_id'',
                                     match = MatchValueStr (sim_tenant_id request)\<rparr>,
                                    \<lparr>key = ''project_id'',
                                     match = MatchValueStr (sim_project_id request)\<rparr>],
                      should = None, must_not = None\<rparr>,
                   call_limit = sim_limit request,
                   call_offset = None,
                   score_threshold = Some (sim_threshold request)\<rparr> of
             Inl e \<Rightarrow> Inl e
           | Inr hits \<Rightarrow> similar_results hits))
   \<and> search_articles st lower generate_embedding index_search r =
     (case generate_embedding (query r) of
        Inl e \<Rightarrow> Inl e
      | Inr v \<Rightarrow>
          (case index_search
                  \<lparr>collection_name = ''kb_articles'',
                   query_vector = v,
                   query_filter =
                     \<lparr>must = Some
                        ([\<lparr>key = ''tenant_id'', match = MatchValueStr (tenant_id r)\<rparr>,
                          \<lparr>key = ''project_id'', match = MatchValueStr (project_id r)\<rparr>]
                         @ (if public_only r
                            then [\<lparr>key = ''is_public'', match = MatchValueBool True\<rparr>]
                            else [])
                         @ (case status r of
                              None \<Rightarrow> []
                            | Some vs \<Rightarrow>
                                if vs = [] then []
                                else [\<lparr>key = ''status'', match = MatchAny vs\<rparr>])
                         @ (case tags r of
                              None \<Rightarrow> []
                            | Some vs \<Rightarrow>
                                if vs = [] then []
                                else [\<lparr>key = ''tags'', match = MatchAny vs\<rparr>])),
                      should = None, must_not = None\<rparr>,
                   call_limit = limit r,
                   call_offset = Some (offset r),
                   score_threshold = Some (MIN_SEARCH_SCORE st)\<rparr> of
             Inl e \<Rightarrow> Inl e
           | Inr hits \<Rightarrow> article_results lower r 0 hits))"
proof -
  have f: "build_filter_conditions (tenant_id r) (project_id r) (Some r) =
      \<lparr>must = Some
         ([\<lparr>key = ''tenant_id'', match = MatchValueStr (tenant_id r)\<rparr>,
           \<lparr>key = ''project_id'', match = MatchValueStr (project_id r)\<rparr>]
          @ (if public_only r
             then [\<lparr>key = ''is_public'', match = MatchValueBool True\<rparr>]
             else [])
          @ (case status r of
               None \<Rightarrow> []
             | Some vs \<Rightarrow>
                 if vs = [] then []
                 else [\<lparr>key = ''status'', match = MatchAny vs\<rparr>])
          @ (case tags r of
               None \<Rightarrow> []
             | Some vs \<Rightarrow>
                 if vs = [] then []
                 else [\<lparr>key = ''tags'', match = MatchAny vs\<rparr>])),
       should = None, must_not = None\<rparr>"
    by (cases "status r"; cases "tags r")
       (simp_all add: build_filter_conditions_def Let_def truthy_list_def)
  have 1: "search_similar generate_embedding index_search request =
     (case generate_embedding (sim_text request) of
        Inl e \<Rightarrow> Inl e
      | Inr v \<Rightarrow>
          (case index_search
                  \<lparr>collection_name = ''kb_articles'',
                   query_vector = v,
                   query_filter =
                     \<lparr>must = Some [\<lparr>key = ''tenant_id'',
                                     match = MatchValueStr (sim_tenant_id request)\<rparr>,
                                    \<lparr>key = ''project_id'',
                                     match = MatchValueStr (sim_project_id request)\<rparr>],
                      should = None, must_not = None\<rparr>,
                   call_limit = sim_limit request,
                   call_offset = None,
                   score_threshold = Some (sim_threshold request)\<rparr> of
             Inl e \<Rightarrow> Inl e
           | Inr hits \<Rightarrow> similar_results hits))"
    by (cases "generate_embedding (sim_text request)")
       (simp_all add: search_similar_def similar_call_def build_filter_conditions_def
          kb_collection_def)
  have 2: "search_articles st lower generate_embedding index_search r =
     (case generate_embedding (query r) of
        Inl e \<Rightarrow> Inl e
      | Inr v \<Rightarrow>
          (case index_search
                  \<lparr>collection_name = ''kb_articles'',
                   query_vector = v,
                   query_filter = build_filter_conditions (tenant_id r) (project_id r) (Some r),
                   call_limit = limit r,
                   call_offset = Some (offset r),
                   score_threshold = Some (MIN_SEARCH_SCORE st)\<rparr> of
             Inl e \<Rightarrow> Inl e
           | Inr hits \<Rightarrow> article_results lower r 0 hits))"
    by (cases "generate_embedding (query r)")
       (simp_all add: search_articles_def articles_call_def kb_collection_def)
  from 1 2 show ?thesis
    unfolding f by (rule conjI)
qed

lemma similar_search_ignores_settings:
  \<comment> \<open>a request with all the optional settings, and the similarity request of the same
      tenant and project: only the first search carries the optional conditions\<close>
  "search_articles default_settings latin_lower (\<lambda>t. Inr [1])
       (\<lambda>c. if the (must (query_filter c)) =
                 [\<lparr>key = ''tenant_id'', match = MatchValueStr ''t1''\<rparr>,
                  \<lparr>key = ''project_id'', match = MatchValueStr ''p1''\<rparr>,
                  \<lparr>key = ''is_public'', match = MatchValueBool True\<rparr>,
                  \<lparr>key = ''status'', match = MatchAny [''published'']\<rparr>,
                  \<lparr>key = ''tags'', match = MatchAny [''howto'']\<rparr>]
             then Inr [] else Inl ProviderError)
       \<lparr>query = cps ''reset'', tenant_id = ''t1'', project_id = ''p1'', limit = 10, offset = 0,
        public_only = True, status = Some [''published''], tags = Some [''howto'']\<rparr>
     = Inr []
   \<and> search_similar (\<lambda>t. Inr [1])
       (\<lambda>c. if the (must (query_filter c)) =
                 [\<lparr>key = ''tenant_id'', match = MatchValueStr ''t1''\<rparr>,
                  \<lparr>key = ''project_id'', match = MatchValueStr ''p1''\<rparr>]
             then Inr [] else Inl ProviderError)
       \<lparr>sim_text = cps ''reset'', sim_tenant_id = ''t1'', sim_project_id = ''p1'',
        sim_limit = 10, sim_threshold = 0.5\<rparr>
     = Inr []"
  by (simp add: search_articles_def articles_call_def search_similar_def similar_call_def
      build_filter_conditions_def truthy_list_def Let_def)

text \<open>
  C10. What \<open>index_article\<close> does is one upsert of one point, whose payload holds
  every key of the metadata with the value of the metadata, the key \<open>title\<close> with
  the title argument when the metadata has no such key, the key \<open>content\<close> with the
  content argument when the metadata has no such key, and no other key. So a
  \<open>title\<close> or \<open>content\<close> key of the metadata replaces the argument in the stored
  payload, and without such a key the stored title and content are the arguments.
  (When the embedding provider fails, nothing is stored.)
\<close>

theorem index_payload_metadata_wins:
  "index_article generate_embedding index_upsert article_id title0 content0 metadata =
     (case generate_embedding (title0 @ [10, 10] @ content0) of
        Inl e \<Rightarrow> Inl e
      | Inr embedding \<Rightarrow>
          index_upsert ''kb_articles''
            [\<lparr>point_id = article_id,
              vector = embedding,
              point_payload =
                (\<lambda>k. case metadata k of
                        Some v \<Rightarrow> Some v
                      | None \<Rightarrow>
                          if k = ''title'' then Some (VStr title0)
                          else if k = ''content'' then Some (VStr content0)
                          else None)\<rparr>])"
proof -
  have "article_payload title0 content0 metadata =
      (\<lambda>k. case metadata k of
              Some v \<Rightarrow> Some v
            | None \<Rightarrow>
                if k = ''title'' then Some (VStr title0)
                else if k = ''content'' then Some (VStr content0)
                else None)"
    by (rule ext) (auto simp add: article_payload_def map_add_def split: option.splits)
  then show ?thesis
    by (cases "generate_embedding (title0 @ [10, 10] @ content0)")
       (simp_all add: index_article_def article_point_def article_text_def kb_collection_def)
qed

lemma metadata_title_stored:
  \<comment> \<open>an index that accepts exactly the point whose payload has the title of the
      metadata, the content argument and the category of the metadata\<close>
  "index_article (\<lambda>t. Inr [1])
       (\<lambda>coll points.
          if map (\<lambda>p. (point_payload p ''title'', point_payload p ''content'',
                        point_payload p ''category'', point_payload p ''summary'')) points
             = [(Some (VStr (cps ''Other'')), Some (VStr (cps ''Body'')),
                 Some (VStr (cps ''faq'')), None)]
          then Inr () else Inl ProviderError)
       ''a1'' (cps ''Title'') (cps ''Body'')
       [''title'' \<mapsto> VStr (cps ''Other''), ''category'' \<mapsto> VStr (cps ''faq'')]
     = Inr ()"
  by (simp add: index_article_def article_point_def article_payload_def cps_def)

section \<open>Answer confidence: the claims\<close>

lemma uncertainty_loop_eq:
  "uncertainty_loop ps rl c = (if (\<exists>p\<in>set ps. sublist p rl) then c - 0.2 else c)"
  by (induction ps) (simp_all add: py_in_def)

lemma has_uncertainty_bex:
  "has_uncertainty r = (\<exists>p\<in>set uncertainty_phrases. sublist p (py_lower r))"
  unfolding has_uncertainty_def uncertainty_phrases_def
  by (simp only: list.set bex_simps insert_iff empty_iff Set.bex_simps HOL.simp_thms
        Set.ball_simps Set.insert_iff bex_Un Un_insert_left)

lemma uncertainty_loop_phrases:
  "uncertainty_loop uncertainty_phrases (py_lower r) c =
     (if has_uncertainty r then c - 0.2 else c)"
  by (simp only: uncertainty_loop_eq has_uncertainty_bex)

lemma clamp01_max_min: "max 0 (min 1 x) = clamp01 x"
  by (simp add: clamp01_def max_def min_def)

text \<open>
  C3. For every response and every list of sources, the confidence that
  \<open>_calculate_confidence\<close> returns is the clamp to the interval from 0 to 1 of: 0.5,
  plus 0.1 for a response longer than 50 characters, plus 0.1 more for one longer
  than 100, plus 0.3 times the mean source score when there are sources, minus 0.2,
  once, when the lowercased response contains an uncertainty phrase. (Floats are
  read as real numbers.)
\<close>

theorem confidence_formula:
  "calculate_confidence response srcs = spec_confidence response srcs"
  unfolding calculate_confidence_def spec_confidence_def Let_def
    uncertainty_loop_phrases clamp01_max_min mean_score_def
  by (rule arg_cong[where f = clamp01]) (simp split: if_splits)

lemma mean_score_bounds:
  assumes "srcs \<noteq> []" and "\<forall>s\<in>set srcs. 0 \<le> score s \<and> score s \<le> 1"
  shows "0 \<le> mean_score srcs" and "mean_score srcs \<le> 1"
proof -
  have nonneg: "0 \<le> sum_list (map score srcs)"
    using assms(2) by (intro sum_list_nonneg) auto
  have "sum_list (map score srcs) \<le> sum_list (map (\<lambda>s. 1) srcs)"
    using assms(2) by (intro sum_list_mono) auto
  then have le: "sum_list (map score srcs) \<le> real (length srcs)"
    by (simp add: sum_list_triv)
  have pos: "0 < real (length srcs)"
    using assms(1) by simp
  show "0 \<le> mean_score srcs"
    unfolding mean_score_def using nonneg pos by simp
  show "mean_score srcs \<le> 1"
    unfolding mean_score_def using le pos by simp
qed

lemma calculate_confidence_pre_penalty:
  "calculate_confidence r srcs =
     max 0 (min 1 (if has_uncertainty r then pre_penalty (length r) srcs - 0.2
                   else pre_penalty (length r) srcs))"
  unfolding calculate_confidence_def pre_penalty_def Let_def uncertainty_loop_phrases
    mean_score_def[symmetric]
  by (simp split: if_splits)

lemma pre_penalty_bounds:
  assumes "\<forall>s\<in>set srcs. 0 \<le> score s \<and> score s \<le> 1"
  shows "0.5 \<le> pre_penalty n srcs" and "pre_penalty n srcs \<le> 1"
proof -
  have m: "srcs \<noteq> [] \<Longrightarrow> 0 \<le> mean_score srcs \<and> mean_score srcs \<le> 1"
    using mean_score_bounds[OF _ assms] by simp
  show "0.5 \<le> pre_penalty n srcs"
    using m by (cases "srcs = []") (simp_all add: pre_penalty_def)
  show "pre_penalty n srcs \<le> 1"
    using m by (cases "srcs = []") (simp_all add: pre_penalty_def)
qed

text \<open>
  C5. Two responses of the same length over the same sources, whose scores lie
  between 0 and 1: when one contains an uncertainty phrase and the other contains
  none, the confidence of the first is that of the second minus 0.2; the clamp at 0
  leaves the difference alone, since the second confidence is at least 0.5. (Floats are
  read as real numbers.)
\<close>

theorem uncertainty_lowers_confidence:
  assumes "length r1 = length r2"
    and "has_uncertainty r1"
    and "\<not> has_uncertainty r2"
    and "\<forall>s\<in>set srcs. 0 \<le> score s \<and> score s \<le> 1"
  shows "calculate_confidence r1 srcs = calculate_confidence r2 srcs - 0.2
         \<and> calculate_confidence r1 srcs = max 0 (calculate_confidence r2 srcs - 0.2)"
  using assms(1,2,3) pre_penalty_bounds[OF assms(4), of "length r2"]
  by (simp add: calculate_confidence_pre_penalty)

lemma unclear_has_uncertainty: "has_uncertainty ''It is unclear''"
  by code_simp

lemma certain_has_no_uncertainty: "\<not> has_uncertainty ''It is certain''"
  by code_simp

theorem uncertainty_lowers_confidence_witness:
  "calculate_confidence ''It is unclear'' [\<lparr>title = ''T'', content = ''C'', score = 0.9\<rparr>]
   = calculate_confidence ''It is certain'' [\<lparr>title = ''T'', content = ''C'', score = 0.9\<rparr>] - 0.2"
  using uncertainty_lowers_confidence[of "''It is unclear''" "''It is certain''"
      "[\<lparr>title = ''T'', content = ''C'', score = 0.9\<rparr>]"]
    unclear_has_uncertainty certain_has_no_uncertainty
  by simp

section \<open>Answer construction: the claims\<close>

lemma dropWhile_id: "xs = [] \<or> \<not> P (hd xs) \<Longrightarrow> dropWhile P xs = xs"
  by (cases xs) auto

lemma py_strip_ends:
  "py_strip s = [] \<or> (\<not> py_isspace (hd (py_strip s)) \<and> \<not> py_isspace (last (py_strip s)))"
proof (cases "dropWhile py_isspace s = []")
  case True
  show ?thesis
    unfolding py_strip_def True by simp
next
  case False
  define u where "u = dropWhile py_isspace s"
  have u: "u \<noteq> []" "\<not> py_isspace (hd u)"
    using False hd_dropWhile[of py_isspace s] by (simp_all add: u_def)
  define v where "v = dropWhile py_isspace (rev u)"
  have "hd u \<in> set (rev u)" using u(1) by simp
  then have "\<exists>x\<in>set (rev u). \<not> py_isspace x" using u(2) by blast
  then have v: "v \<noteq> []" by (simp add: v_def dropWhile_eq_Nil_conv)
  then have hv: "\<not> py_isspace (hd v)"
    using hd_dropWhile[of py_isspace "rev u"] by (simp add: v_def)
  obtain ws where ws: "rev u = ws @ v"
    by (metis takeWhile_dropWhile_id v_def)
  then have "u = rev v @ rev ws" by (metis rev_append rev_rev_ident)
  then have "hd (rev v) = hd u" using v by simp
  then have "\<not> py_isspace (hd (rev v))" using u(2) by simp
  moreover have "last (rev v) = hd v" using v by (simp add: last_rev)
  ultimately show ?thesis
    using hv v by (simp add: py_strip_def u_def[symmetric] v_def[symmetric])
qed

lemma py_strip_idem: "py_strip (py_strip s) = py_strip s"
proof (cases "py_strip s = []")
  case True
  show ?thesis
    by (subst (1) py_strip_def) (simp only: True dropWhile.simps rev.simps)
next
  case False
  with py_strip_ends[of s]
  have h: "\<not> py_isspace (hd (py_strip s))" and l: "\<not> py_isspace (last (py_strip s))"
    by auto
  have 1: "dropWhile py_isspace (py_strip s) = py_strip s"
    using h by (intro dropWhile_id) simp
  have "hd (rev (py_strip s)) = last (py_strip s)" using False by (simp add: hd_rev)
  then have 2: "dropWhile py_isspace (rev (py_strip s)) = rev (py_strip s)"
    using l by (intro dropWhile_id) simp
  show ?thesis
    by (subst (1) py_strip_def) (simp only: 1 2 rev_rev_ident)
qed

text \<open>
  C4, as the code has it. Every answer of \<open>answer_question\<close> has \<open>has_answer\<close> only
  with a confidence above 0.3 and a trimmed answer text longer than 10 characters.
  When the provider returned a text, an answer without \<open>has_answer\<close> and with sources
  carries the titles of the first three sources as suggestions. When the provider
  failed, the fallback answer has no \<open>has_answer\<close>, confidence 0 and no suggestions,
  whatever the sources.
\<close>

theorem answer_invariant:
  "(has_answer (answer_question g q arts ac)
      \<longrightarrow> 0.3 < confidence (answer_question g q arts ac)
          \<and> 10 < length (py_strip (answer (answer_question g q arts ac))))
   \<and> (case g (create_answer_prompt q (build_context arts ac)) of
         Inr r \<Rightarrow>
           (\<not> has_answer (answer_question g q arts ac)
              \<and> sources (answer_question g q arts ac) \<noteq> []
            \<longrightarrow> suggestions (answer_question g q arts ac)
                  = map title (take 3 (sources (answer_question g q arts ac))))
       | Inl e \<Rightarrow>
           \<not> has_answer (answer_question g q arts ac)
           \<and> confidence (answer_question g q arts ac) = 0
           \<and> suggestions (answer_question g q arts ac) = [])"
  by (cases "g (create_answer_prompt q (build_context arts ac))")
     (simp_all add: answer_question_def Let_def fallback_answer_def parse_answer_response_def
        py_strip_idem)

lemma settings_answer_has_answer:
  "has_answer (answer_question (fixed_provider ''Open Settings, then choose Security.'')
        ''How do I reset my password?''
        [\<lparr>title = ''Reset password'', content = ''Open Settings.'', score = 0.9\<rparr>] None)"
  by code_simp

lemma not_sure_answer_has_no_answer:
  "\<not> has_answer (answer_question (fixed_provider ''not sure'')
        ''How do I reset my password?''
        [\<lparr>title = ''Reset password'', content = ''Open Settings.'', score = 0.9\<rparr>] None)"
  by code_simp

theorem answer_invariant_witness:
  "0.3 < confidence (answer_question (fixed_provider ''Open Settings, then choose Security.'')
        ''How do I reset my password?''
        [\<lparr>title = ''Reset password'', content = ''Open Settings.'', score = 0.9\<rparr>] None)
   \<and> suggestions (answer_question (fixed_provider ''not sure'')
        ''How do I reset my password?''
        [\<lparr>title = ''Reset password'', content = ''Open Settings.'', score = 0.9\<rparr>] None)
     = [''Reset password'']
   \<and> suggestions (answer_question failing_provider
        ''How do I reset my password?''
        [\<lparr>title = ''Reset password'', content = ''Open Settings.'', score = 0.9\<rparr>] None)
     = []"
  using settings_answer_has_answer not_sure_answer_has_no_answer
    answer_invariant[of "fixed_provider ''Open Settings, then choose Security.''"
      "''How do I reset my password?''"
      "[\<lparr>title = ''Reset password'', content = ''Open Settings.'', score = 0.9\<rparr>]" None]
    answer_invariant[of "fixed_provider ''not sure''"
      "''How do I reset my password?''"
      "[\<lparr>title = ''Reset password'', content = ''Open Settings.'', score = 0.9\<rparr>]" None]
    answer_invariant[of failing_provider
      "''How do I reset my password?''"
      "[\<lparr>title = ''Reset password'', content = ''Open Settings.'', score = 0.9\<rparr>]" None]
  by (simp add: fixed_provider_def failing_provider_def answer_question_def
      parse_answer_response_def fallback_answer_def Let_def)

text \<open>
  C4, as the claim states it, fails on the fallback answer: with a provider that is
  down and one source, the answer has no \<open>has_answer\<close>, its sources are not empty, and
  its suggestions are not the titles of the sources.
\<close>

theorem fallback_without_suggestions:
  "\<not> has_answer (answer_question failing_provider ''How do I reset my password?''
        [\<lparr>title = ''Reset password'', content = ''Open Settings.'', score = 0.9\<rparr>] None)
   \<and> sources (answer_question failing_provider ''How do I reset my password?''
        [\<lparr>title = ''Reset password'', content = ''Open Settings.'', score = 0.9\<rparr>] None) \<noteq> []
   \<and> suggestions (answer_question failing_provider ''How do I reset my password?''
        [\<lparr>title = ''Reset password'', content = ''Open Settings.'', score = 0.9\<rparr>] None)
     \<noteq> map title (take 3 (sources (answer_question failing_provider
          ''How do I reset my password?''
          [\<lparr>title = ''Reset password'', content = ''Open Settings.'', score = 0.9\<rparr>] None)))"
  by (simp add: answer_question_def failing_provider_def fallback_answer_def Let_def)

section \<open>Cosine similarity: the claims\<close>

lemma zip_map_nth:
  "length v = length w \<Longrightarrow>
   map (\<lambda>(x, y). f x y) (zip v w) = map (\<lambda>i. f (v ! i) (w ! i)) [0..<length v]"
  by (rule nth_equalityI) simp_all

lemma map_nth_self: "map (\<lambda>x. f x x) v = map (\<lambda>i. f (v ! i) (v ! i)) [0..<length v]"
  by (rule nth_equalityI) simp_all

lemma np_linalg_norm_spec: "np_linalg_norm rnd v = spec_norm rnd v"
  unfolding np_linalg_norm_def spec_norm_def
  by (simp only: map_nth_self[of "fmul rnd" v])

lemma np_dot_spec: "length v = length w \<Longrightarrow> np_dot rnd v w = Inr (spec_dot rnd v w)"
  unfolding np_dot_def spec_dot_def
  by (simp only: zip_map_nth[of v w "fmul rnd"] if_False simp_thms)

lemma quotient_by_zero_norm:
  \<comment> \<open>without the test for a zero norm the quotient would not be \<open>0.0\<close>\<close>
  assumes "rnd 0 = FNum 0" and "n1 = FNum 0 \<or> n2 = FNum 0"
  shows "fdiv rnd d (fmul rnd n1 n2) \<in> {PosInf, NegInf, NaN}"
proof -
  have "fmul rnd n1 n2 = FNum 0 \<or> fmul rnd n1 n2 = NaN"
    using assms by (cases n1; cases n2) auto
  then show ?thesis
    by (cases d) auto
qed

lemma similarity_underflow:
  \<comment> \<open>a vector so small that its squares round to zero has the norm \<open>0.0\<close>\<close>
  assumes "rnd 0 = FNum 0" and "rnd (x * x) = FNum 0"
  shows "compute_similarity rnd [FNum x, FNum 0] [FNum x, FNum 0] = Inr (FNum 0)"
  using assms
  by (simp add: compute_similarity_def np_dot_def np_linalg_norm_def fsum_def)

lemma similarity_overflow:
  \<comment> \<open>a vector so large that its squares round to infinity has the similarity NaN\<close>
  assumes "rnd 0 = FNum 0" and "rnd (x * x) = PosInf"
  shows "compute_similarity rnd [FNum x, FNum 0] [FNum x, FNum 0] = Inr NaN"
  using assms
  by (simp add: compute_similarity_def np_dot_def np_linalg_norm_def fsum_def)

text \<open>
  C8. For two vectors of the same length and every rounding, \<open>compute_similarity\<close>
  raises nothing and returns the value of the specification: \<open>0.0\<close> when the norm of
  either vector is zero, and otherwise the dot product divided by the product of
  the two norms. The norms, the dot product, the product and the quotient are those
  of floating-point arithmetic: the norm of a vector is zero also when its squares
  underflow, and the quotient is NaN when they overflow.
\<close>

theorem cosine_similarity_defined:
  assumes "length a = length b"
  shows "compute_similarity rnd a b = Inr (spec_cosine rnd a b)
    \<and> (spec_norm rnd a = FNum 0 \<or> spec_norm rnd b = FNum 0
        \<longrightarrow> compute_similarity rnd a b = Inr (FNum 0))
    \<and> (spec_norm rnd a \<noteq> FNum 0 \<and> spec_norm rnd b \<noteq> FNum 0
        \<longrightarrow> compute_similarity rnd a b =
            Inr (fdiv rnd (spec_dot rnd a b) (fmul rnd (spec_norm rnd a) (spec_norm rnd b))))"
  using assms
  by (simp add: compute_similarity_def np_dot_spec np_linalg_norm_spec spec_cosine_def Let_def)

theorem cosine_similarity_defined_witness:
  "length [FNum 1, FNum 0] = length [FNum 0, FNum 0 :: pyfloat]
   \<and> compute_similarity exact [FNum 1, FNum 0] [FNum 0, FNum 0] = Inr (FNum 0)
   \<and> compute_similarity exact [FNum 1, FNum 0] [FNum 1, FNum 0] = Inr (FNum 1)"
  using cosine_similarity_defined[of "[FNum 1, FNum 0]" "[FNum 0, FNum 0]" exact]
    cosine_similarity_defined[of "[FNum 1, FNum 0]" "[FNum 1, FNum 0]" exact]
  by (simp add: spec_norm_def spec_dot_def spec_cosine_def fsum_def exact_def)

section \<open>Snippets: the claims\<close>

lemma py_find_ge: "- 1 \<le> py_find sub s"
  by (induction s) (auto simp: Let_def)

lemma py_find_found:
  "0 \<le> py_find sub s \<Longrightarrow>
   nat (py_find sub s) + length sub \<le> length s
   \<and> take (length sub) (drop (nat (py_find sub s)) s) = sub"
proof (induction s)
  case Nil
  then show ?case by (simp split: if_splits)
next
  case (Cons x xs)
  show ?case
  proof (cases "prefix sub (x # xs)")
    case True
    then obtain zs where "x # xs = sub @ zs" by (auto simp: prefix_def)
    then have "length sub \<le> length (x # xs)" "take (length sub) (x # xs) = sub"
      by (metis prefix_length_le True, metis append_eq_conv_conj)
    with True show ?thesis by simp
  next
    case False
    with Cons.prems have r: "0 \<le> py_find sub xs"
      by (simp add: Let_def split: if_splits)
    with False have eq: "py_find sub (x # xs) = py_find sub xs + 1"
      by (simp add: Let_def)
    have n: "nat (py_find sub xs + 1) = Suc (nat (py_find sub xs))"
      using r by simp
    from Cons.IH[OF r] show ?thesis
      unfolding eq n by simp
  qed
qed

lemma py_find_sublist: "sublist sub s \<Longrightarrow> 0 \<le> py_find sub s"
proof (induction s)
  case Nil
  then show ?case by simp
next
  case (Cons x xs)
  show ?case
  proof (cases "prefix sub (x # xs)")
    case True
    then show ?thesis by simp
  next
    case False
    with Cons.prems have "sublist sub xs"
      by (cases sub) (auto simp: sublist_Cons_right)
    from Cons.IH[OF this] False show ?thesis by (simp add: Let_def)
  qed
qed

lemma py_find_self: "s \<noteq> [] \<Longrightarrow> py_find s s = 0"
  by (cases s) simp_all

lemma py_slice_nonneg:
  "0 \<le> i \<Longrightarrow> 0 \<le> j \<Longrightarrow> j \<le> int (length xs) \<Longrightarrow> i \<le> j
   \<Longrightarrow> py_slice xs i j = take (nat j - nat i) (drop (nat i) xs)"
  by (simp add: py_slice_def py_index_def Let_def min_def)

lemma py_index_le: "py_index n i \<le> n"
  unfolding py_index_def by (simp add: max_def) linarith

lemma length_py_slice:
  "length (py_slice xs i j) = py_index (length xs) j - py_index (length xs) i"
  using py_index_le[of "length xs" j]
  by (simp add: py_slice_def Let_def min_def) linarith

lemma length_py_slice_nonneg:
  "0 \<le> i \<Longrightarrow> 0 \<le> j \<Longrightarrow> int (length (py_slice xs i j)) \<le> max 0 (j - i)"
  unfolding length_py_slice py_index_def by (simp add: min_def) linarith


lemma window_contains:
  assumes "s \<le> p" and "p + n \<le> e"
  shows "sublist (take n (drop p xs)) (take (e - s) (drop s xs))"
proof -
  have "drop (p - s) (take (e - s) (drop s xs)) = take (e - p) (drop p xs)"
    using assms by (simp add: drop_take)
  then have "take n (drop (p - s) (take (e - s) (drop s xs))) = take n (drop p xs)"
    using assms by (simp add: min_def)
  moreover have "sublist (take n (drop (p - s) (take (e - s) (drop s xs))))
                   (take (e - s) (drop s xs))"
    by (meson sublist_take sublist_drop sublist_order.order_trans)
  ultimately show ?thesis by simp
qed

lemma sublist_filter_length:
  "sublist xs ys \<Longrightarrow> length (filter P xs) \<le> length (filter P ys)"
  by (auto simp: sublist_def)

lemma length_truncate_content:
  "0 \<le> m \<Longrightarrow> int (length (truncate_content c m)) \<le> m + 3"
  using length_py_slice_nonneg[of 0 m c]
  by (simp add: truncate_content_def ellipsis_def)

lemma snippet_found:
  assumes "content0 \<noteq> []" "query0 \<noteq> []"
    and "0 \<le> match_pos lower content0 query0"
  shows "generate_snippet lower content0 query0 m =
     (let pos = match_pos lower content0 query0;
          start = max 0 (pos - m div 4);
          endp = min (int (length content0)) (start + m)
      in (if start > 0 then ellipsis else [])
         @ py_slice content0 start endp
         @ (if endp < int (length content0) then ellipsis else []))"
  using assms by (simp add: generate_snippet_def match_pos_def Let_def)

lemma snippet_not_found:
  assumes "\<not> 0 \<le> match_pos lower content0 query0"
  shows "generate_snippet lower content0 query0 m = truncate_content content0 m"
  using assms py_find_ge[of "lower query0" "lower content0"]
  by (simp add: generate_snippet_def match_pos_def Let_def)

lemma length_snippet:
  assumes "content0 \<noteq> []" "query0 \<noteq> []"
  shows "length (generate_snippet lower content0 query0 200) \<le> 206"
proof (cases "0 \<le> match_pos lower content0 query0")
  case False
  from length_truncate_content[of 200 content0] show ?thesis
    unfolding snippet_not_found[OF False] by simp
next
  case True
  define pos where "pos = match_pos lower content0 query0"
  define start where "start = max 0 (pos - 50)"
  define endp where "endp = min (int (length content0)) (start + 200)"
  have "0 \<le> start" by (simp add: start_def)
  moreover have "0 \<le> endp" using \<open>0 \<le> start\<close> by (simp add: endp_def)
  ultimately have "int (length (py_slice content0 start endp)) \<le> max 0 (endp - start)"
    by (rule length_py_slice_nonneg)
  moreover have "endp - start \<le> 200" by (simp add: endp_def)
  ultimately have "length (py_slice content0 start endp) \<le> 200" by simp
  then show ?thesis
    unfolding snippet_found[OF assms True]
    by (simp add: Let_def pos_def[symmetric] start_def[symmetric] endp_def[symmetric]
        ellipsis_def)
qed

lemma match_found:
  assumes "0 \<le> match_pos lower content0 query0"
  shows "nat (match_pos lower content0 query0) + length (lower query0) \<le> length (lower content0)"
    and "matched_lower lower content0 query0 = lower query0"
proof -
  define pos where "pos = match_pos lower content0 query0"
  have pos0: "0 \<le> pos" using assms by (simp add: pos_def)
  from py_find_found[of "lower query0" "lower content0"] assms
  have le: "nat pos + length (lower query0) \<le> length (lower content0)"
    and eq: "take (length (lower query0)) (drop (nat pos) (lower content0)) = lower query0"
    by (simp_all add: pos_def match_pos_def)
  show "nat (match_pos lower content0 query0) + length (lower query0) \<le> length (lower content0)"
    using le by (simp add: pos_def)
  have "py_slice (lower content0) pos (pos + int (length (lower query0)))
        = take (nat (pos + int (length (lower query0))) - nat pos) (drop (nat pos) (lower content0))"
    using pos0 le by (intro py_slice_nonneg) simp_all
  moreover have "nat (pos + int (length (lower query0))) - nat pos = length (lower query0)"
    using pos0 by simp
  ultimately show "matched_lower lower content0 query0 = lower query0"
    using eq by (simp add: matched_lower_def pos_def[symmetric])
qed

lemma matched_text_take:
  assumes "0 \<le> match_pos lower content0 query0"
    and "length (lower content0) = length content0"
  shows "matched_text lower content0 query0 =
         take (length (lower query0)) (drop (nat (match_pos lower content0 query0)) content0)"
    and "length (matched_text lower content0 query0) = length (lower query0)"
proof -
  define pos where "pos = match_pos lower content0 query0"
  have pos0: "0 \<le> pos" using assms(1) by (simp add: pos_def)
  have le: "nat pos + length (lower query0) \<le> length content0"
    using match_found(1)[OF assms(1)] assms(2) by (simp add: pos_def)
  have "py_slice content0 pos (pos + int (length (lower query0)))
        = take (nat (pos + int (length (lower query0))) - nat pos) (drop (nat pos) content0)"
    using pos0 le by (intro py_slice_nonneg) simp_all
  moreover have "nat (pos + int (length (lower query0))) - nat pos = length (lower query0)"
    using pos0 by simp
  ultimately have m: "matched_text lower content0 query0
      = take (length (lower query0)) (drop (nat pos) content0)"
    by (simp add: matched_text_def pos_def[symmetric])
  show "matched_text lower content0 query0 =
         take (length (lower query0)) (drop (nat (match_pos lower content0 query0)) content0)"
    using m by (simp add: pos_def)
  show "length (matched_text lower content0 query0) = length (lower query0)"
    unfolding m using le by simp
qed

lemma sublist_in_context:
  assumes "sublist m w"
  shows "sublist m (p @ w @ s)"
proof -
  from assms obtain a b where "w = a @ m @ b"
    by (auto simp: sublist_def)
  then have "p @ w @ s = (p @ a) @ m @ (b @ s)"
    by simp
  then show ?thesis
    by (simp only: sublist_appendI)
qed

lemma snippet_contains_match:
  assumes ne: "content0 \<noteq> []" "query0 \<noteq> []"
    and found: "0 \<le> match_pos lower content0 query0"
    and same: "length (lower content0) = length content0"
    and fits: "match_fits lower content0 query0 200"
  shows "sublist (matched_text lower content0 query0) (generate_snippet lower content0 query0 200)"
proof -
  define pos where "pos = match_pos lower content0 query0"
  define n where "n = length (lower query0)"
  define start where "start = max 0 (pos - 50)"
  define endp where "endp = min (int (length content0)) (start + 200)"
  have pos0: "0 \<le> pos" using found by (simp add: pos_def)
  have le: "nat pos + n \<le> length content0"
    using match_found(1)[OF found] same by (simp add: pos_def n_def)
  have fit: "pos + int n \<le> start + 200"
    using fits by (simp add: match_fits_def pos_def start_def n_def)
  have s0: "0 \<le> start" "start \<le> pos" using pos0 by (simp_all add: start_def)
  have e: "pos + int n \<le> endp" "endp \<le> int (length content0)" "start \<le> endp"
    using le fit pos0 s0 by (simp_all add: endp_def)
  have e0: "0 \<le> endp" using s0 e by simp
  have win: "py_slice content0 start endp = take (nat endp - nat start) (drop (nat start) content0)"
    using s0(1) e0 e(2) e(3) by (rule py_slice_nonneg)
  have "sublist (take n (drop (nat pos) content0))
          (take (nat endp - nat start) (drop (nat start) content0))"
    using s0 e pos0 by (intro window_contains) simp_all
  then have "sublist (matched_text lower content0 query0) (py_slice content0 start endp)"
    unfolding win matched_text_take(1)[OF found same] pos_def n_def .
  then have "sublist (matched_text lower content0 query0)
      ((if start > 0 then ellipsis else []) @ py_slice content0 start endp
         @ (if endp < int (length content0) then ellipsis else []))"
    by (rule sublist_in_context)
  then show ?thesis
    unfolding snippet_found[OF ne found]
    by (simp add: Let_def pos_def[symmetric] start_def[symmetric] endp_def[symmetric])
qed

lemma short_query_fits:
  assumes "0 \<le> match_pos lower content0 query0" "length (lower query0) \<le> 150"
  shows "match_fits lower content0 query0 200"
  using assms by (simp add: match_fits_def)

lemma match_pos_found_iff:
  "sublist (lower query0) (lower content0) \<longleftrightarrow> match_pos lower content0 query0 \<noteq> - 1"
proof
  assume "sublist (lower query0) (lower content0)"
  from py_find_sublist[OF this] show "match_pos lower content0 query0 \<noteq> - 1"
    by (simp add: match_pos_def)
next
  assume "match_pos lower content0 query0 \<noteq> - 1"
  with py_find_ge[of "lower query0" "lower content0"]
  have "0 \<le> py_find (lower query0) (lower content0)"
    by (simp add: match_pos_def)
  from py_find_found[OF this]
  have "take (length (lower query0))
          (drop (nat (py_find (lower query0) (lower content0))) (lower content0)) = lower query0"
    by simp
  then show "sublist (lower query0) (lower content0)"
    by (metis sublist_drop sublist_take sublist_order.order_trans)
qed

text \<open>
  C6, as the code has it. For non-empty content and query, \<open>max_length = 200\<close> and
  every case mapping \<open>lower\<close>, the snippet has at most 206 characters. The code finds
  the match in the lowercased content and cuts the window out of the original
  content, so the rest is about contents whose lowercased form has the length of the
  content (for \<open>str.lower()\<close>: contents without U+0130, the one code point whose
  lowercase form is longer). For such a content, when the lowercased query occurs in
  the lowercased content and the first match ends inside the window, which starts
  50 characters before the match (or at 0) and spans 200 characters, the snippet
  contains the characters of the content at the positions of the match, as many as
  the lowercased query has, and the lowercased content at these positions is the
  lowercased query. Every lowercased query of at most 150 characters that occurs has
  its match inside the window.
\<close>

theorem snippet_bounds:
  assumes "content0 \<noteq> []" and "query0 \<noteq> []"
  shows "length (generate_snippet lower content0 query0 200) \<le> 206
    \<and> (length (lower content0) = length content0
        \<and> sublist (lower query0) (lower content0)
        \<and> match_fits lower content0 query0 200
        \<longrightarrow> sublist (matched_text lower content0 query0)
              (generate_snippet lower content0 query0 200)
            \<and> length (matched_text lower content0 query0) = length (lower query0)
            \<and> matched_lower lower content0 query0 = lower query0)
    \<and> (sublist (lower query0) (lower content0) \<and> length (lower query0) \<le> 150
        \<longrightarrow> match_fits lower content0 query0 200)"
proof -
  have f: "0 \<le> match_pos lower content0 query0" if "sublist (lower query0) (lower content0)"
    using py_find_sublist[OF that] by (simp add: match_pos_def)
  show ?thesis
    using length_snippet[OF assms, of lower] snippet_contains_match[OF assms, of lower]
      matched_text_take(2)[of lower content0 query0] match_found(2)[of lower content0 query0]
      short_query_fits[of lower content0 query0] f
    by blast
qed

lemma latin_lower_replicate_a: "latin_lower (replicate n 97) = replicate n 97"
  by (induction n) (simp_all add: latin_lower_def lower_code_point_def)

lemma long_query_snippet:
  "generate_snippet latin_lower (replicate 201 97) (replicate 201 97) 200
   = replicate 200 97 @ ellipsis"
proof -
  have f: "py_find (replicate 201 97) (replicate 201 (97::nat)) = 0"
    by (rule py_find_self) simp
  have s: "py_slice (replicate 201 (97::nat)) 0 200 = replicate 200 97"
    by (simp add: py_slice_def py_index_def)
  show ?thesis
    by (simp add: generate_snippet_def latin_lower_replicate_a f s Let_def)
qed

text \<open>
  C6, as the claim states it, fails for a query longer than the window: the content
  and the query are both 201 letters \<open>a\<close> (code point 97); the query occurs at
  position 0, the matched text is the whole content, and the snippet holds only 200
  of the letters.
\<close>

theorem long_query_not_in_snippet:
  "replicate 201 (97::nat) \<noteq> []
   \<and> sublist (latin_lower (replicate 201 97)) (latin_lower (replicate 201 97))
   \<and> length (latin_lower (replicate 201 97)) = length (replicate 201 (97::nat))
   \<and> matched_text latin_lower (replicate 201 97) (replicate 201 97) = replicate 201 97
   \<and> \<not> sublist (matched_text latin_lower (replicate 201 97) (replicate 201 97))
         (generate_snippet latin_lower (replicate 201 97) (replicate 201 97) 200)"
proof -
  have f: "py_find (replicate 201 97) (replicate 201 (97::nat)) = 0"
    by (rule py_find_self) simp
  have m: "matched_text latin_lower (replicate 201 97) (replicate 201 97) = replicate 201 97"
    by (simp add: matched_text_def match_pos_def latin_lower_replicate_a f py_slice_def
        py_index_def)
  have "\<not> sublist (replicate 201 (97::nat)) (replicate 200 97 @ ellipsis)"
  proof
    assume "sublist (replicate 201 (97::nat)) (replicate 200 97 @ ellipsis)"
    from sublist_filter_length[OF this, of "\<lambda>c. c = 97"] show False
      by (simp add: ellipsis_def)
  qed
  then show ?thesis
    unfolding m long_query_snippet by (simp add: latin_lower_replicate_a)
qed

lemma settings_found:
  "sublist (latin_lower (cps ''Settings''))
     (latin_lower (cps ''Reset your password by clicking Settings then Security.''))
   \<and> length (latin_lower (cps ''Reset your password by clicking Settings then Security.''))
       = length (cps ''Reset your password by clicking Settings then Security.'')"
  by code_simp

theorem snippet_bounds_witness:
  "length (generate_snippet latin_lower
       (cps ''Reset your password by clicking Settings then Security.'')
       (cps ''Settings'') 200) \<le> 206
   \<and> sublist (matched_text latin_lower
         (cps ''Reset your password by clicking Settings then Security.'') (cps ''Settings''))
       (generate_snippet latin_lower
          (cps ''Reset your password by clicking Settings then Security.'')
          (cps ''Settings'') 200)
   \<and> match_fits latin_lower
       (cps ''Reset your password by clicking Settings then Security.'') (cps ''Settings'') 200"
  using snippet_bounds[of "cps ''Reset your password by clicking Settings then Security.''"
      "cps ''Settings''" latin_lower]
    settings_found
  by (simp add: cps_def latin_lower_def lower_code_point_def)

text \<open>
  A content with U+0130 before the match: 60 times U+0130, then \<open>needle\<close>, then 200
  letters \<open>z\<close>, and the query \<open>needle\<close>. The lowercased content is 60 code points
  longer, the match is found there at position 120, and the window cut at 70 out of
  the original content holds 196 letters \<open>z\<close> and no part of the match.
\<close>

lemma dotted_capital_i_misaligns:
  "generate_snippet latin_lower (replicate 60 304 @ cps ''needle'' @ replicate 200 122)
     (cps ''needle'') 200
   = ellipsis @ replicate 196 122"
  by code_simp

section \<open>Text chunking: the claims\<close>

subsection \<open>A cursor that does not move\<close>


lemma chunk_loop_stuck:
  assumes "chunk_loop text cs ov s acc = Some r"
  shows "\<not> (s < int (length text) \<and> chunk_end text cs s - ov = s)"
proof (rule chunk_loop.raw_induct
    [where P = "\<lambda>t c v p a y. \<not> (p < int (length t) \<and> chunk_end t c p - v = p)",
     OF _ assms])
  fix loop :: "ustring \<Rightarrow> int \<Rightarrow> int \<Rightarrow> int \<Rightarrow> ustring list \<Rightarrow> ustring list option"
  fix t c v p a y
  assume IH: "\<And>t c v p a y. loop t c v p a = Some y \<Longrightarrow>
                \<not> (p < int (length t) \<and> chunk_end t c p - v = p)"
    and body: "(if p < int (length t)
      then (let endp = chunk_end t c p;
                chunks' = chunk_append a (u_strip (py_slice t p endp));
                start' = endp - v
            in if start' \<ge> int (length t) then Some chunks'
               else loop t c v start' chunks')
      else Some a) = Some y"
  show "\<not> (p < int (length t) \<and> chunk_end t c p - v = p)"
  proof
    assume stuck: "p < int (length t) \<and> chunk_end t c p - v = p"
    with body have "loop t c v p (chunk_append a (u_strip (py_slice t p (chunk_end t c p)))) = Some y"
      by (simp add: Let_def)
    from IH[OF this] stuck show False by simp
  qed
qed

text \<open>
  C1, as the code has it. The loop of \<open>chunk_text\<close> has no step that forces the cursor
  forward. For the text \<open>ab cdefghijkl\<close>, the chunk size 5 and the overlap 2, which
  satisfy \<open>0 \<le> overlap < chunk_size\<close>, the first chunk is pulled back to the space at
  position 2, the next cursor is \<open>2 - 2 = 0\<close>, the cursor of the first iteration, and
  the call never returns.
\<close>

theorem chunk_text_never_returns:
  "chunk_text default_settings (cps ''ab cdefghijkl'') (Some 5) (Some 2) = None"
proof -
  have e: "chunk_end (cps ''ab cdefghijkl'') 5 0 = 2"
    by (simp add: chunk_end_def py_rfind_def py_index_def cps_def)
  have "chunk_loop (cps ''ab cdefghijkl'') 5 2 0 [] = None"
  proof (cases "chunk_loop (cps ''ab cdefghijkl'') 5 2 0 []")
    case None
    then show ?thesis .
  next
    case (Some r)
    from chunk_loop_stuck[OF this] e show ?thesis by (simp add: cps_def)
  qed
  then show ?thesis by (simp add: chunk_text_def py_or_def default_settings_def cps_def)
qed

subsection \<open>rfind and the end of a chunk\<close>









subsection \<open>Trimming\<close>





subsection \<open>The loop keeps every chunk within the chunk size\<close>












subsection \<open>Calls that return\<close>

text \<open>
  The loop returns from every cursor when each chunk ends more than the overlap
  after its start; it does so for a text without spaces, where no end is pulled
  back.
\<close>

lemma chunk_loop_returns:
  assumes adv: "\<And>p. 0 \<le> p \<Longrightarrow> p < int (length text) \<Longrightarrow> p < chunk_end text cs p - ov"
  shows "0 \<le> s \<Longrightarrow> \<exists>r. chunk_loop text cs ov s acc = Some r"
proof (induction "nat (int (length text) - s)" arbitrary: s acc rule: less_induct)
  case less
  show ?case
  proof (cases "s < int (length text)")
    case False
    then show ?thesis by (subst chunk_loop.simps) simp
  next
    case True
    define e where "e = chunk_end text cs s"
    define acc' where "acc' = chunk_append acc (u_strip (py_slice text s e))"
    from adv[OF less.prems True] have gt: "s < e - ov" by (simp add: e_def)
    show ?thesis
    proof (cases "int (length text) \<le> e - ov")
      case True
      with \<open>s < int (length text)\<close> show ?thesis
        by (subst chunk_loop.simps) (simp add: Let_def e_def)
    next
      case False
      have "nat (int (length text) - (e - ov)) < nat (int (length text) - s)"
        using gt False by linarith
      moreover have "0 \<le> e - ov" using gt less.prems by linarith
      ultimately obtain r where "chunk_loop text cs ov (e - ov) acc' = Some r"
        using less.hyps by blast
      with False \<open>s < int (length text)\<close> show ?thesis
        by (subst chunk_loop.simps) (simp add: Let_def e_def acc'_def)
    qed
  qed
qed

lemma py_rfind_absent: "c \<notin> set xs \<Longrightarrow> py_rfind c xs i j = - 1"
proof -
  assume a: "c \<notin> set xs"
  have "List.find (\<lambda>p. xs ! p = c) (rev [py_index (length xs) i..<py_index (length xs) j]) = None"
    unfolding find_None_iff
  proof (intro notI, elim exE conjE)
    fix p
    assume "p \<in> set (rev [py_index (length xs) i..<py_index (length xs) j])" "xs ! p = c"
    then have "p < length xs" using py_index_le[of "length xs" j] by simp
    with \<open>xs ! p = c\<close> a show False by (metis nth_mem)
  qed
  then show ?thesis by (simp add: py_rfind_def Let_def)
qed

lemma chunk_text_returns_without_spaces:
  assumes "cs = py_or chunk_size (CHUNK_SIZE st)" and "ov = py_or overlap (CHUNK_OVERLAP st)"
    and "0 < cs" and "ov < cs" and "32 \<notin> set text"
  shows "\<exists>chunks. chunk_text st text chunk_size overlap = Some chunks"
proof (cases "int (length text) \<le> cs")
  case True
  then show ?thesis using assms(1) by (simp add: chunk_text_def Let_def)
next
  case False
  have "p < chunk_end text cs p - ov" if "0 \<le> p" for p
    using that assms(3,4) py_rfind_absent[OF assms(5)]
    by (simp add: chunk_end_def Let_def)
  then have "\<exists>r. chunk_loop text cs ov 0 [] = Some r"
    by (intro chunk_loop_returns) simp_all
  with False assms(1,2) show ?thesis by (simp add: chunk_text_def Let_def)
qed

subsection \<open>The chunks of a call that returns\<close>





text \<open>
  Two more behaviours of the code that the statement of C2 above leaves out. A first
  chunk that ends before position \<open>overlap\<close> makes the next cursor negative, and the
  slice from a negative cursor counts from the end of the text: for the text
  \<open>a bcdefghijklmnopqrstuvwxyz\<close>, the chunk size 10 and the overlap 2 the characters
  \<open>bcdef\<close> are in no chunk. And an overlap of 0 is replaced by the configured overlap.
\<close>

lemma negative_cursor_skips_text:
  "chunk_text default_settings (cps ''a bcdefghijklmnopqrstuvwxyz'') (Some 10) (Some 2)
     = Some [cps ''a'', cps ''ghijklmnop'', cps ''opqrstuvwx'', cps ''wxyz'']
   \<and> of_char CHR ''b''
       \<notin> set (concat [cps ''a'', cps ''ghijklmnop'', cps ''opqrstuvwx'', cps ''wxyz''])"
  by (simp add: chunk_text_def py_or_def chunk_loop.simps chunk_end_def py_rfind_def
      py_index_def py_slice_def u_strip_def u_isspace_def chunk_append_def cps_def Let_def)

lemma zero_overlap_takes_default:
  "chunk_text st text (Some cs) (Some 0) = chunk_text st text (Some cs) None"
  by (simp add: chunk_text_def py_or_def)

end
